theory Spec2Isabelle
  imports Complex_Main "HOL-Library.Multiset"
begin

section \<open>Data model\<close>

text \<open>
  Strings are lists of 8-bit characters (code units below 256); \<open>length\<close> is the
  source's \<open>.length\<close> on such strings. Identifiers are the string forms of object ids.
\<close>

type_synonym objectId = string

text \<open>
  \<open>Product\<close> and \<open>CartItem\<close> of the data model of the specification, with whole
  amounts: a cart item is a product of the catalogue, joined at read time, with a quantity.
  The checkout engine works on these.
\<close>

record product =
  product_id :: objectId
  product_name :: string
  category :: string
  cost :: int
  rating :: int
  image :: string

record cartItem =
  item_product :: product
  quantity :: int

section \<open>Strings\<close>

text \<open>
  \<open>String.prototype.trim\<close> removes white space from both ends. On 8-bit characters the
  white space of ECMAScript is: tab, line feed, vertical tab, form feed, carriage return,
  space and the no-break space.
\<close>

definition isWhiteSpace :: "char \<Rightarrow> bool" where
  "isWhiteSpace c = ((of_char c :: nat) \<in> {9, 10, 11, 12, 13, 32, 160})"

definition trim :: "string \<Rightarrow> string" where
  "trim s = rev (dropWhile isWhiteSpace (rev (dropWhile isWhiteSpace s)))"

text \<open>
  \<open>String.prototype.toLowerCase\<close> on 8-bit characters: the capital letters are \<open>A\<close> to
  \<open>Z\<close> (65 to 90) and the capitals of Latin-1 (192 to 222 without the multiplication sign
  215); each has its small letter 32 places higher.
\<close>

definition toLower :: "char \<Rightarrow> char" where
  "toLower c =
     (let n = (of_char c :: nat) in
      if (65 \<le> n \<and> n \<le> 90) \<or> (192 \<le> n \<and> n \<le> 214) \<or> (216 \<le> n \<and> n \<le> 222)
      then char_of (n + 32) else c)"

definition toLowerCase :: "string \<Rightarrow> string" where
  "toLowerCase s = map toLower s"

section \<open>The user model (\<open>unnamed/part_001\<close>)\<close>

text \<open>One element of the \<open>addresses\<close> array of \<open>userSchema\<close>, with the \<open>_id\<close> of a subdocument.\<close>

record addressDoc =
  addr_id :: objectId
  addr_address :: string

text \<open>
  A document of \<open>userSchema\<close>. The field \<open>address\<close> is the single legacy address;
  \<open>addresses\<close> is the saved-address array, which the controller treats as possibly absent
  (\<open>user.addresses || []\<close>), so it is an option here. \<open>walletMoney\<close> is a whole amount.
\<close>

record user =
  user_id :: objectId
  name :: string
  email :: string
  password :: string
  walletMoney :: int
  address :: string
  addresses :: "addressDoc list option"

text \<open>
  \<^verbatim>\<open>hasSetNonDefaultAddress: return user.addresses && user.addresses.length > 0;\<close>
  The value of \<open>a && b\<close> is \<open>a\<close> when \<open>a\<close> is falsy (here: the absent array, \<open>undefined\<close>)
  and \<open>b\<close> otherwise; the caller reads its truthiness.
\<close>

datatype jsValue = Undefined | Boolean bool

fun truthy :: "jsValue \<Rightarrow> bool" where
  "truthy Undefined = False"
| "truthy (Boolean b) = b"

definition hasSetNonDefaultAddress :: "user \<Rightarrow> jsValue" where
  "hasSetNonDefaultAddress u =
     (case addresses u of
        None \<Rightarrow> Undefined
      | Some as \<Rightarrow> Boolean (length as > 0))"

text \<open>
  \<^verbatim>\<open>isEmailTaken: try { result = await this.findOne({email}); return result ? true : false }
                catch (err) { return false }\<close>
  The query of the store either answers or fails; its outcome is the argument.
\<close>

datatype 'a storeResult = Answer 'a | StoreFault string

definition isEmailTaken :: "(string \<Rightarrow> user option storeResult) \<Rightarrow> string \<Rightarrow> bool" where
  "isEmailTaken findOne_email e =
     (case findOne_email e of
        Answer result \<Rightarrow> (case result of Some _ \<Rightarrow> True | None \<Rightarrow> False)
      | StoreFault err \<Rightarrow> False)"

section \<open>Creating a user document from \<open>userSchema\<close>\<close>

text \<open>
  What a registration gives for a new user. \<open>walletMoney\<close> and \<open>address\<close> have defaults
  in the schema and may be left out; a \<open>walletMoney\<close> that is given is a non-negative
  number, as the data model of the specification has it
  (\<open>walletMoney (non-negative number, default 500)\<close>).
\<close>

record createBody =
  new_name :: string
  new_email :: string
  new_password :: string
  new_walletMoney :: "nat option"
  new_address :: "string option"

text \<open>
  \<open>config.default_address\<close>, as the sample response in the documentation of \<open>getUser\<close>
  shows it.
\<close>

definition default_address :: string where
  "default_address = ''ADDRESS_NOT_SET''"

text \<open>
  The setters and defaults of the schema: \<open>name\<close>, \<open>email\<close> and \<open>password\<close> are trimmed,
  \<open>email\<close> is lower-cased, \<open>walletMoney\<close> defaults to 500, \<open>address\<close> to
  \<open>config.default_address\<close>, and the \<open>addresses\<close> array starts empty.
\<close>

definition userSchema_cast :: "objectId \<Rightarrow> createBody \<Rightarrow> user" where
  "userSchema_cast newId b =
     \<lparr>user_id = newId,
      name = trim (new_name b),
      email = toLowerCase (trim (new_email b)),
      password = trim (new_password b),
      walletMoney = (case new_walletMoney b of None \<Rightarrow> 500 | Some w \<Rightarrow> int w),
      address = (case new_address b of None \<Rightarrow> default_address | Some a \<Rightarrow> a),
      addresses = Some []\<rparr>"

definition isDigit :: "char \<Rightarrow> bool" where
  "isDigit c = (let n = (of_char c :: nat) in 48 \<le> n \<and> n \<le> 57)"

definition isLetter :: "char \<Rightarrow> bool" where
  "isLetter c = (let n = (of_char c :: nat) in (65 \<le> n \<and> n \<le> 90) \<or> (97 \<le> n \<and> n \<le> 122))"

text \<open>
  The validators of the schema: the three strings are required (a required string must not
  be empty), \<open>email\<close> must satisfy \<open>validator.isEmail\<close> (a library function, here the
  parameter \<open>isEmail\<close>), \<open>password\<close> has at least 8 characters, a digit and a letter.
  \<open>walletMoney\<close> is required and has no other validator.
\<close>

definition userSchema_valid :: "(string \<Rightarrow> bool) \<Rightarrow> user \<Rightarrow> bool" where
  "userSchema_valid isEmail u =
     (name u \<noteq> [] \<and>
      email u \<noteq> [] \<and> isEmail (email u) \<and>
      password u \<noteq> [] \<and> length (password u) \<ge> 8 \<and>
      list_ex isDigit (password u) \<and> list_ex isLetter (password u))"

datatype httpStatus = NOT_FOUND | FORBIDDEN | BAD_REQUEST

text \<open>
  An \<open>ApiError\<close> has a status and a message. Of the errors of the store only the kind is
  kept: a validation error of a document, or a refused duplicate of a unique field.
\<close>

datatype error =
    ApiError httpStatus string
  | MongooseValidationError
  | DuplicateKeyError

text \<open>
  Modelled from the spec: the creation of a user (registration) is not among the sources.
  The specification gives the user as created at registration with
  \<open>email (unique, case-insensitive, valid email syntax)\<close> and the invariant
  "email uniqueness across all users"; the schema of \<open>part_001\<close> declares the field
  \<open>unique\<close>, \<open>lowercase\<close> and \<open>trim\<close>. The collection of users is the list of its
  documents. Creating one casts and validates it by the schema, and is refused when a user
  with the same stored email is already in the collection.
\<close>

definition createUser ::
  "(string \<Rightarrow> bool) \<Rightarrow> user list \<Rightarrow> objectId \<Rightarrow> createBody \<Rightarrow> error + user \<times> user list" where
  "createUser isEmail store newId b =
     (let doc = userSchema_cast newId b in
      if \<not> userSchema_valid isEmail doc then Inl MongooseValidationError
      else if email doc \<in> set (map email store) then Inl DuplicateKeyError
      else Inr (doc, store @ [doc]))"

text \<open>
  \<open>findOne({email: e})\<close> on the collection: the filter value is cast by the schema (its
  setters trim and lower-case it) and compared with the stored emails.
\<close>

definition findOne_email :: "user list \<Rightarrow> string \<Rightarrow> user option" where
  "findOne_email store e = find (\<lambda>u. email u = toLowerCase (trim e)) store"

text \<open>
  The unique index on the stored emails: no stored email occurs twice, and every stored
  email is in lower case, as the schema's setter leaves it.
\<close>

definition emailIndex :: "user list \<Rightarrow> bool" where
  "emailIndex store =
     (distinct (map email store) \<and> list_all (\<lambda>u. toLowerCase (email u) = email u) store)"

section \<open>The user service\<close>

text \<open>
  Modelled from the spec: \<open>userService.getUserById\<close> is not among the sources; the
  controller uses it as the lookup of the user record with the given identifier, absent
  when there is none.
\<close>

definition getUserById :: "user list \<Rightarrow> objectId \<Rightarrow> user option" where
  "getUserById store userId = find (\<lambda>u. user_id u = userId) store"

text \<open>
  Modelled from the spec: \<open>userService.getUserAddressById\<close> is not among the sources; it
  is the same lookup under the \<open>addressOnly\<close> projection, of which \<open>getUser\<close> reads the
  fields \<open>email\<close> and \<open>address\<close>.
\<close>

definition getUserAddressById :: "user list \<Rightarrow> objectId \<Rightarrow> user option" where
  "getUserAddressById store userId = find (\<lambda>u. user_id u = userId) store"

text \<open>\<open>user.save()\<close>: the document with this \<open>_id\<close> is replaced in the collection.\<close>

fun save :: "user \<Rightarrow> user list \<Rightarrow> user list" where
  "save u' [] = []"
| "save u' (u # store) = (if user_id u = user_id u' then u' # store else u # save u' store)"

text \<open>
  Modelled from the spec: \<open>userService.setAddress\<close> is not among the sources; it
  overwrites the single legacy address field, persists, and returns the new value.
\<close>

definition service_setAddress :: "user list \<Rightarrow> user \<Rightarrow> string \<Rightarrow> string \<times> user list" where
  "service_setAddress store u newAddress =
     (let u' = u\<lparr>address := newAddress\<rparr> in (address u', save u' store))"

section \<open>The user controller (\<open>unnamed/part_000\<close>)\<close>

datatype response =
    SendUser user
  | SendAddress string
  | SendAddresses "addressDoc list"
  | SendSuccess

text \<open>
  In each handler \<open>caller\<close> is \<open>req.user\<close>, the record of the authenticated user, and
  \<open>userId\<close> is \<open>req.params.userId\<close>. A handler that throws leaves the collection as it was.

  \<open>getUser\<close>: \<open>q\<close> is \<open>req.query.q\<close>.
\<close>

definition getUser :: "user list \<Rightarrow> user \<Rightarrow> objectId \<Rightarrow> string option \<Rightarrow> error + response" where
  "getUser store caller userId q =
     (let data = (if q = Some ''address'' then getUserAddressById store userId
                  else getUserById store userId) in
      case data of
        None \<Rightarrow> Inl (ApiError NOT_FOUND ''User not found'')
      | Some d \<Rightarrow>
          if email d \<noteq> email caller
          then Inl (ApiError FORBIDDEN ''User not authorized to access this resource'')
          else if q = Some ''address'' then Inr (SendAddress (address d))
          else Inr (SendUser d))"

text \<open>\<open>setAddress\<close>: \<open>newAddress\<close> is \<open>req.body.address\<close>, a string by the route's validator.\<close>

definition setAddress ::
  "user list \<Rightarrow> user \<Rightarrow> objectId \<Rightarrow> string \<Rightarrow> (error + response) \<times> user list" where
  "setAddress store caller userId newAddress =
     (case getUserById store userId of
        None \<Rightarrow> (Inl (ApiError NOT_FOUND ''User not found''), store)
      | Some u \<Rightarrow>
          if email u \<noteq> email caller
          then (Inl (ApiError FORBIDDEN ''User not authorized to access this resource''), store)
          else (let (a, store') = service_setAddress store u newAddress
                in (Inr (SendAddress a), store')))"

definition getAddresses :: "user list \<Rightarrow> user \<Rightarrow> objectId \<Rightarrow> error + response" where
  "getAddresses store caller userId =
     (case getUserById store userId of
        None \<Rightarrow> Inl (ApiError NOT_FOUND ''User not found'')
      | Some u \<Rightarrow>
          if user_id u \<noteq> user_id caller then Inl (ApiError FORBIDDEN ''User not found'')
          else Inr (SendAddresses (case addresses u of None \<Rightarrow> [] | Some as \<Rightarrow> as)))"

text \<open>
  \<open>req.body.address\<close> is what the client sent, since the route has no validator: nothing,
  a string, or another value. Of a value that is not a string the handler and the schema
  observe three things: whether it is truthy, whether \<open>value.length < 20\<close> holds (it does
  not when \<open>value.length\<close> is \<open>undefined\<close>, as for a number), and what the schema's cast to
  \<open>String\<close> makes of it, if it can be cast.
\<close>

datatype bodyValue =
    Absent
  | StringValue string
  | OtherValue (isTruthy: bool) (lengthBelow20: bool) (castToString: "string option")

text \<open>
  \<open>addAddress\<close>: \<open>bodyAddress\<close> is \<open>req.body.address\<close>; the guard is
  \<open>!req.body.address || req.body.address.length < 20\<close>, on the value as it was sent.
  The pushed object is cast by the schema of the array: it gets the fresh \<open>_id\<close>
  \<open>newId\<close>, and its \<open>address\<close> is cast to a string and trimmed. \<open>user.save()\<close>
  validates the new element: it fails when the value could not be cast, and when the
  \<open>address\<close>, which is required, is empty.
\<close>

definition addAddress ::
  "user list \<Rightarrow> user \<Rightarrow> objectId \<Rightarrow> bodyValue \<Rightarrow> objectId \<Rightarrow> (error + response) \<times> user list" where
  "addAddress store caller userId bodyAddress newId =
     (case getUserById store userId of
        None \<Rightarrow> (Inl (ApiError NOT_FOUND ''User not found''), store)
      | Some u \<Rightarrow>
          if user_id u \<noteq> user_id caller then (Inl (ApiError FORBIDDEN ''User not found''), store)
          else if (case bodyAddress of
                     Absent \<Rightarrow> True
                   | StringValue a \<Rightarrow> a = [] \<or> length a < 20
                   | OtherValue t below c \<Rightarrow> (if t then below else True))
          then (Inl (ApiError BAD_REQUEST ''Address should be greater than 20 characters''), store)
          else (case (case bodyAddress of
                        Absent \<Rightarrow> None
                      | StringValue a \<Rightarrow> Some a
                      | OtherValue t below c \<Rightarrow> c) of
                  None \<Rightarrow> (Inl MongooseValidationError, store)
                | Some a \<Rightarrow>
                   (let as = (case addresses u of None \<Rightarrow> [] | Some as \<Rightarrow> as);
                        new = \<lparr>addr_id = newId, addr_address = trim a\<rparr>;
                        u' = u\<lparr>addresses := Some (as @ [new])\<rparr>
                    in if addr_address new = []
                       then (Inl MongooseValidationError, store)
                       else (Inr SendSuccess, save u' store))))"

text \<open>\<open>Array.prototype.findIndex\<close>: the first index whose element satisfies \<open>P\<close>, or \<open>-1\<close>.\<close>

fun findIndex :: "('a \<Rightarrow> bool) \<Rightarrow> 'a list \<Rightarrow> int" where
  "findIndex P [] = - 1"
| "findIndex P (x # xs) =
     (if P x then 0 else (let i = findIndex P xs in if i = - 1 then - 1 else i + 1))"

text \<open>\<open>xs.splice(i, 1)\<close> for an index \<open>i\<close> that is not negative.\<close>

definition splice1 :: "int \<Rightarrow> 'a list \<Rightarrow> 'a list" where
  "splice1 i xs = take (nat i) xs @ drop (nat i + 1) xs"

text \<open>\<open>deleteAddress\<close>: \<open>addressId\<close> is \<open>req.params.addressId\<close>.\<close>

definition deleteAddress ::
  "user list \<Rightarrow> user \<Rightarrow> objectId \<Rightarrow> objectId \<Rightarrow> (error + response) \<times> user list" where
  "deleteAddress store caller userId addressId =
     (case getUserById store userId of
        None \<Rightarrow> (Inl (ApiError NOT_FOUND ''User not found''), store)
      | Some u \<Rightarrow>
          if user_id u \<noteq> user_id caller then (Inl (ApiError FORBIDDEN ''User not found''), store)
          else (let as = (case addresses u of None \<Rightarrow> [] | Some as \<Rightarrow> as);
                    addressIndex = findIndex (\<lambda>addr. addr_id addr = addressId) as
                in if addressIndex = - 1
                   then (Inl (ApiError NOT_FOUND ''Address to delete was not found''), store)
                   else (Inr SendSuccess,
                         save (u\<lparr>addresses := Some (splice1 addressIndex as)\<rparr>) store)))"

text \<open>Whether a handler's outcome is an \<open>ApiError\<close> with status \<open>403 FORBIDDEN\<close>.\<close>

definition isForbidden :: "error + 'a \<Rightarrow> bool" where
  "isForbidden r = (case r of Inl (ApiError FORBIDDEN m) \<Rightarrow> True | _ \<Rightarrow> False)"


section \<open>JavaScript numbers\<close>

text \<open>
  A JavaScript number is an IEEE 754 double: a finite value, which is a rational number,
  one of the two infinities, or \<open>NaN\<close>. The two zeros are one value here; they are equal
  for every comparison and print alike.
\<close>

datatype jsNumber = Finite rat | PosInfinity | NegInfinity | NaN

text \<open>The number of binary digits of a positive integer.\<close>

function bitLength :: "int \<Rightarrow> nat" where
  "bitLength n = (if n \<le> 0 then 0 else bitLength (n div 2) + 1)"
  by pat_completeness auto
termination
  by (relation "measure nat") auto

text \<open>The power \<open>2 ^ q\<close> for an integer \<open>q\<close>.\<close>

definition pow2 :: "int \<Rightarrow> rat" where
  "pow2 q = (if 0 \<le> q then 2 ^ nat q else 1 / 2 ^ nat (- q))"

text \<open>The binary exponent of a rational \<open>x \<noteq> 0\<close>: the \<open>e\<close> with \<open>2 ^ e \<le> \<bar>x\<bar> < 2 ^ (e + 1)\<close>.\<close>

definition exponent :: "rat \<Rightarrow> int" where
  "exponent x =
     (if 1 \<le> \<bar>x\<bar> then int (bitLength \<lfloor>\<bar>x\<bar>\<rfloor>) - 1
      else - int (bitLength (\<lceil>1 / \<bar>x\<bar>\<rceil> - 1)))"

text \<open>Rounding to the nearest integer, a tie going to the even one.\<close>

definition roundHalfEven :: "rat \<Rightarrow> int" where
  "roundHalfEven y =
     (let f = \<lfloor>y\<rfloor>; d = y - of_int f in
      if d < 1 / 2 then f else if 1 / 2 < d then f + 1 else if even f then f else f + 1)"

text \<open>
  The double nearest to a rational, ties to even: 53 significant binary digits, the
  smallest exponent \<open>-1022\<close> (below it the spacing stays \<open>2 ^ -1074\<close>), and an infinity
  when the rounded magnitude reaches \<open>2 ^ 1024\<close>.
\<close>

definition roundDouble :: "rat \<Rightarrow> jsNumber" where
  "roundDouble x =
     (if x = 0 then Finite 0
      else (let q = max (exponent x) (- 1022) - 52;
                r = of_int (roundHalfEven (\<bar>x\<bar> / pow2 q)) * pow2 q
            in if 2 ^ 1024 \<le> r then (if 0 < x then PosInfinity else NegInfinity)
               else Finite (if 0 < x then r else - r)))"

text \<open>The operators \<open>+\<close> and \<open>*\<close> on numbers: the exact result, rounded.\<close>

fun jsAdd :: "jsNumber \<Rightarrow> jsNumber \<Rightarrow> jsNumber" where
  "jsAdd (Finite a) (Finite b) = roundDouble (a + b)"
| "jsAdd NaN _ = NaN"
| "jsAdd _ NaN = NaN"
| "jsAdd PosInfinity NegInfinity = NaN"
| "jsAdd NegInfinity PosInfinity = NaN"
| "jsAdd PosInfinity _ = PosInfinity"
| "jsAdd _ PosInfinity = PosInfinity"
| "jsAdd NegInfinity _ = NegInfinity"
| "jsAdd _ NegInfinity = NegInfinity"

fun jsSign :: "jsNumber \<Rightarrow> int" where
  "jsSign (Finite r) = (if r < 0 then - 1 else if r = 0 then 0 else 1)"
| "jsSign PosInfinity = 1"
| "jsSign NegInfinity = - 1"
| "jsSign NaN = 0"

fun jsMul :: "jsNumber \<Rightarrow> jsNumber \<Rightarrow> jsNumber" where
  "jsMul (Finite a) (Finite b) = roundDouble (a * b)"
| "jsMul NaN _ = NaN"
| "jsMul _ NaN = NaN"
| "jsMul a b =
     (let s = jsSign a * jsSign b in
      if s = 0 then NaN else if 0 < s then PosInfinity else NegInfinity)"

section \<open>Cart total (\<open>Cart.js\<close>, \<open>calculateTotal\<close>)\<close>

text \<open>
  The \<open>Product\<close> typedef of \<open>Cart.js\<close>, and an element of \<open>state.items\<close> as
  \<open>refreshCart\<close> builds it: its \<open>product\<close> is what \<open>props.products.find\<close> returned,
  \<open>undefined\<close> when no product of the list has the item's id.
\<close>

record stateProduct =
  sp_id :: string
  sp_name :: string
  sp_category :: string
  sp_cost :: jsNumber
  sp_rating :: jsNumber
  sp_image :: string

record stateItem =
  si_product :: "stateProduct option"
  si_quantity :: jsNumber

text \<open>Reading \<open>item.product.cost\<close> when \<open>item.product\<close> is \<open>undefined\<close> throws a \<open>TypeError\<close>.\<close>

datatype jsError = TypeError

text \<open>\<open>Array.prototype.reduce\<close> with an initial value and a callback that may throw.\<close>

fun reduce :: "('b \<Rightarrow> 'a \<Rightarrow> jsError + 'b) \<Rightarrow> 'b \<Rightarrow> 'a list \<Rightarrow> jsError + 'b" where
  "reduce f acc [] = Inr acc"
| "reduce f acc (x # xs) = (case f acc x of Inl e \<Rightarrow> Inl e | Inr acc' \<Rightarrow> reduce f acc' xs)"

text \<open>The callback \<^verbatim>\<open>(total, item) => total + item.product.cost * item.quantity\<close>.\<close>

definition addLine :: "jsNumber \<Rightarrow> stateItem \<Rightarrow> jsError + jsNumber" where
  "addLine tot item =
     (case si_product item of
        None \<Rightarrow> Inl TypeError
      | Some p \<Rightarrow> Inr (jsAdd tot (jsMul (sp_cost p) (si_quantity item))))"

text \<open>
  \<^verbatim>\<open>items.length ? items.reduce((total, item) => total + item.product.cost * item.quantity, 0) : 0\<close>
\<close>

definition calculateTotal :: "stateItem list \<Rightarrow> jsError + jsNumber" where
  "calculateTotal items =
     (if length items \<noteq> 0 then reduce addLine (Finite 0) items else Inr (Finite 0))"

text \<open>
  Numbers that are not negative, numbers that are positive, and the whole numbers from 0 on.
\<close>

fun nonNegative :: "jsNumber \<Rightarrow> bool" where
  "nonNegative (Finite r) = (0 \<le> r)"
| "nonNegative PosInfinity = True"
| "nonNegative NegInfinity = False"
| "nonNegative NaN = False"

fun positive :: "jsNumber \<Rightarrow> bool" where
  "positive (Finite r) = (0 < r)"
| "positive PosInfinity = True"
| "positive NegInfinity = False"
| "positive NaN = False"

fun wholeNumber :: "jsNumber \<Rightarrow> bool" where
  "wholeNumber (Finite r) = (0 \<le> r \<and> r = of_int \<lfloor>r\<rfloor>)"
| "wholeNumber PosInfinity = False"
| "wholeNumber NegInfinity = False"
| "wholeNumber NaN = False"

text \<open>The value of a finite number.\<close>

fun valueOf :: "jsNumber \<Rightarrow> rat" where
  "valueOf (Finite r) = r"
| "valueOf PosInfinity = 0"
| "valueOf NegInfinity = 0"
| "valueOf NaN = 0"

text \<open>
  An item with a product whose cost and quantity are positive; an item with a product whose
  cost and quantity are whole numbers.
\<close>

definition positiveItem :: "stateItem \<Rightarrow> bool" where
  "positiveItem item =
     (case si_product item of
        None \<Rightarrow> False
      | Some p \<Rightarrow> positive (sp_cost p) \<and> positive (si_quantity item))"

definition wholeItem :: "stateItem \<Rightarrow> bool" where
  "wholeItem item =
     (case si_product item of
        None \<Rightarrow> False
      | Some p \<Rightarrow> wholeNumber (sp_cost p) \<and> wholeNumber (si_quantity item))"

text \<open>
  The total in the words of the specification, computed exactly: the sum over the cart
  items of \<open>product.cost \<times> item.quantity\<close>.
\<close>

definition exactLine :: "stateItem \<Rightarrow> rat" where
  "exactLine item =
     (case si_product item of
        None \<Rightarrow> 0
      | Some p \<Rightarrow> valueOf (sp_cost p) * valueOf (si_quantity item))"

definition exactTotal :: "stateItem list \<Rightarrow> rat" where
  "exactTotal items = (\<Sum>item\<leftarrow>items. exactLine item)"

text \<open>The same sum on the cart items of the data model, which the checkout engine uses.\<close>

definition computeTotal :: "cartItem list \<Rightarrow> int" where
  "computeTotal items = (\<Sum>item\<leftarrow>items. cost (item_product item) * quantity item)"

section \<open>Checkout\<close>

datatype checkoutError = EmptyCart | NoAddress | InsufficientBalance

text \<open>
  Modelled from the spec: the checkout engine (the cart service) is not among the
  sources. The specification gives it as: precondition 1, the cart is not empty, else
  \<open>Rejected(EmptyCart)\<close>; precondition 2, the user has a saved address beyond the legacy
  default, else \<open>Rejected(NoAddress)\<close>; \<open>total = computeTotal(cart)\<close>; precondition 3,
  \<open>user.walletMoney >= total\<close>, else \<open>Rejected(InsufficientBalance)\<close>; commit,
  \<open>user.walletMoney -= total\<close> and the cart is emptied; the post-commit wallet balance is
  returned. Precondition 2 is \<open>hasSetNonDefaultAddress\<close> of the user model. The result is
  the outcome with the user record and the cart as they are persisted afterwards.
\<close>

definition checkout :: "user \<Rightarrow> cartItem list \<Rightarrow> (checkoutError + int) \<times> user \<times> cartItem list" where
  "checkout u cart =
     (if cart = [] then (Inl EmptyCart, u, cart)
      else if \<not> truthy (hasSetNonDefaultAddress u) then (Inl NoAddress, u, cart)
      else (let total = computeTotal cart in
            if \<not> (walletMoney u \<ge> total) then (Inl InsufficientBalance, u, cart)
            else (Inr (walletMoney u - total), u\<lparr>walletMoney := walletMoney u - total\<rparr>, [])))"

section \<open>Sequences of operations\<close>

text \<open>
  The operations that write the collection of users: a registration, the three saving
  handlers of the user controller, and a checkout of a user with the cart of that moment.
\<close>

datatype operation =
    Register objectId createBody
  | SetAddress user objectId string
  | AddAddress user objectId bodyValue objectId
  | DeleteAddress user objectId objectId
  | Checkout objectId "cartItem list"

text \<open>
  One operation on the collection. Modelled from the spec: how a registration and a
  checkout write the collection is not among the sources; a registration adds the created
  user, a checkout persists the user record that \<open>checkout\<close> returns for the user with
  the given identifier. The handlers of the user controller write it as the source does. An
  operation that fails leaves the collection as it was.
\<close>

fun step :: "(string \<Rightarrow> bool) \<Rightarrow> user list \<Rightarrow> operation \<Rightarrow> user list" where
  "step isEmail store (Register newId b) =
     (case createUser isEmail store newId b of Inl e \<Rightarrow> store | Inr (doc, store') \<Rightarrow> store')"
| "step isEmail store (SetAddress caller userId newAddress) =
     snd (setAddress store caller userId newAddress)"
| "step isEmail store (AddAddress caller userId bodyAddress newId) =
     snd (addAddress store caller userId bodyAddress newId)"
| "step isEmail store (DeleteAddress caller userId addressId) =
     snd (deleteAddress store caller userId addressId)"
| "step isEmail store (Checkout userId cart) =
     (case getUserById store userId of
        None \<Rightarrow> store
      | Some u \<Rightarrow> save (fst (snd (checkout u cart))) store)"

text \<open>The collection after a sequence of operations.\<close>

definition run :: "(string \<Rightarrow> bool) \<Rightarrow> user list \<Rightarrow> operation list \<Rightarrow> user list" where
  "run isEmail store ops = foldl (step isEmail) store ops"

section \<open>Example data\<close>

definition shoes :: cartItem where
  "shoes = \<lparr>item_product = \<lparr>product_id = ''p1'', product_name = ''Shoes'', category = ''Fashion'',
                              cost = 50, rating = 4, image = ''shoes.png''\<rparr>,
            quantity = 2\<rparr>"

definition lamps :: cartItem where
  "lamps = \<lparr>item_product = \<lparr>product_id = ''p2'', product_name = ''Lamp'', category = ''Home'',
                              cost = 80, rating = 5, image = ''lamp.png''\<rparr>,
            quantity = 3\<rparr>"

definition home :: addressDoc where
  "home = \<lparr>addr_id = ''a1'', addr_address = ''12 Park Street, Kolkata 700016''\<rparr>"

definition office :: addressDoc where
  "office = \<lparr>addr_id = ''a2'', addr_address = ''5 MG Road, Bengaluru 560001''\<rparr>"

definition asha :: user where
  "asha = \<lparr>user_id = ''u1'', name = ''Asha'', email = ''asha@example.com'',
            password = ''secret123'', walletMoney = 500, address = ''ADDRESS_NOT_SET'',
            addresses = Some [home, office]\<rparr>"

definition ravi :: user where
  "ravi = \<lparr>user_id = ''u2'', name = ''Ravi'', email = ''ravi@example.com'',
            password = ''passw0rd9'', walletMoney = 100, address = ''ADDRESS_NOT_SET'',
            addresses = Some []\<rparr>"

text \<open>A registration that leaves \<open>walletMoney\<close> and \<open>address\<close> out, and the document it yields.\<close>

definition meera :: createBody where
  "meera = \<lparr>new_name = ''Meera'', new_email = '' Meera@Example.COM '',
             new_password = ''hunter42x'', new_walletMoney = None, new_address = None\<rparr>"

definition meeraDoc :: user where
  "meeraDoc = \<lparr>user_id = ''u3'', name = ''Meera'', email = ''meera@example.com'',
                password = ''hunter42x'', walletMoney = 500, address = ''ADDRESS_NOT_SET'',
                addresses = Some []\<rparr>"

text \<open>A stand-in for \<open>validator.isEmail\<close> in the examples.\<close>

definition containsAt :: "string \<Rightarrow> bool" where
  "containsAt e = (CHR ''@'' \<in> set e)"

text \<open>Items of the cart component: with a product of a given cost, and without a product.\<close>

definition pricedItem :: "rat \<Rightarrow> rat \<Rightarrow> stateItem" where
  "pricedItem c q =
     \<lparr>si_product = Some \<lparr>sp_id = ''p1'', sp_name = ''Item'', sp_category = ''General'',
                           sp_cost = Finite c, sp_rating = Finite 4, sp_image = ''item.png''\<rparr>,
      si_quantity = Finite q\<rparr>"

definition orphanItem :: stateItem where
  "orphanItem = \<lparr>si_product = None, si_quantity = Finite 1\<rparr>"

section \<open>Auxiliary facts: strings, lookups, saving, array search\<close>

lemma toLower_idem: "toLower (toLower c) = toLower c"
  by (auto simp: toLower_def Let_def)

lemma toLowerCase_idem: "toLowerCase (toLowerCase s) = toLowerCase s"
  by (simp add: toLowerCase_def toLower_idem)

lemma length_trim: "length (trim s) \<le> length s"
proof -
  have "length (trim s) \<le> length (dropWhile isWhiteSpace s)"
    unfolding trim_def using length_dropWhile_le [of isWhiteSpace "rev (dropWhile isWhiteSpace s)"]
    by simp
  also have "\<dots> \<le> length s" by (rule length_dropWhile_le)
  finally show ?thesis .
qed

lemma getUserById_id: "getUserById store userId = Some u \<Longrightarrow> user_id u = userId"
  unfolding getUserById_def by (induction store) (auto split: if_splits)

lemma getUserById_mem: "getUserById store userId = Some u \<Longrightarrow> u \<in> set store"
  unfolding getUserById_def by (induction store) (auto split: if_splits)

lemma getUserById_save_same:
  "getUserById store userId = Some u \<Longrightarrow> user_id u' = userId
     \<Longrightarrow> getUserById (save u' store) userId = Some u'"
  unfolding getUserById_def by (induction store) (auto split: if_splits)

lemma map_save:
  "getUserById store (user_id u') = Some u \<Longrightarrow> f u' = f u \<Longrightarrow> map f (save u' store) = map f store"
  unfolding getUserById_def by (induction store) (auto split: if_splits)

lemma findIndex_none: "(findIndex P xs = - 1) = (\<forall>x\<in>set xs. \<not> P x)"
  and findIndex_ge: "- 1 \<le> findIndex P xs"
  by (induction xs) (auto simp: Let_def)

lemma splice1_Cons_Suc: "0 \<le> i \<Longrightarrow> splice1 (i + 1) (x # xs) = x # splice1 i xs"
  by (simp add: splice1_def nat_add_distrib)

lemma splice1_findIndex_filter:
  "distinct (map f xs) \<Longrightarrow> findIndex (\<lambda>x. f x = k) xs \<noteq> - 1
     \<Longrightarrow> splice1 (findIndex (\<lambda>x. f x = k) xs) xs = filter (\<lambda>x. f x \<noteq> k) xs"
proof (induction xs)
  case Nil
  then show ?case by simp
next
  case (Cons x xs)
  show ?case
  proof (cases "f x = k")
    case True
    with Cons.prems have "\<forall>y\<in>set xs. f y \<noteq> k" by (metis distinct.simps(2) image_eqI list.simps(9) set_map)
    then have "filter (\<lambda>x. f x \<noteq> k) xs = xs" by (simp add: filter_id_conv)
    with True show ?thesis by (simp add: splice1_def)
  next
    case False
    with Cons.prems have ne: "findIndex (\<lambda>x. f x = k) xs \<noteq> - 1"
      by (auto simp: Let_def split: if_splits)
    with findIndex_ge [of "\<lambda>x. f x = k" xs] have ge: "0 \<le> findIndex (\<lambda>x. f x = k) xs" by linarith
    from Cons.prems have "distinct (map f xs)" by simp
    from Cons.IH [OF this ne] False ne ge show ?thesis
      by (simp add: Let_def splice1_Cons_Suc)
  qed
qed

lemma find_distinct_key:
  "distinct (map f xs) \<Longrightarrow> x \<in> set xs \<Longrightarrow> y \<in> set xs \<Longrightarrow> f x = f y \<Longrightarrow> x = y"
  by (metis distinct_map inj_onD)

lemma setAddress_map:
  assumes "\<And>u x. f (u\<lparr>address := x\<rparr>) = f u"
  shows "map f (snd (setAddress store caller userId newAddress)) = map f store"
proof (cases "getUserById store userId")
  case None
  then show ?thesis by (simp add: setAddress_def)
next
  case (Some u)
  have "map f (save (u\<lparr>address := newAddress\<rparr>) store) = map f store"
    by (rule map_save [of store _ u]) (simp_all add: Some getUserById_id [OF Some] assms)
  with Some show ?thesis
    by (simp add: setAddress_def service_setAddress_def Let_def)
qed

lemma addAddress_map:
  assumes "\<And>u x. f (u\<lparr>addresses := x\<rparr>) = f u"
  shows "map f (snd (addAddress store caller userId bodyAddress newId)) = map f store"
proof (cases "getUserById store userId")
  case None
  then show ?thesis by (simp add: addAddress_def)
next
  case (Some u)
  have "\<And>x. map f (save (u\<lparr>addresses := x\<rparr>) store) = map f store"
    by (rule map_save [of store _ u]) (simp_all add: Some getUserById_id [OF Some] assms)
  with Some show ?thesis
    by (simp add: addAddress_def Let_def split: option.splits)
qed

lemma deleteAddress_map:
  assumes "\<And>u x. f (u\<lparr>addresses := x\<rparr>) = f u"
  shows "map f (snd (deleteAddress store caller userId addressId)) = map f store"
proof (cases "getUserById store userId")
  case None
  then show ?thesis by (simp add: deleteAddress_def)
next
  case (Some u)
  have "\<And>x. map f (save (u\<lparr>addresses := x\<rparr>) store) = map f store"
    by (rule map_save [of store _ u]) (simp_all add: Some getUserById_id [OF Some] assms)
  with Some show ?thesis
    by (simp add: deleteAddress_def Let_def)
qed

lemma emailIndex_map:
  "emailIndex store = (distinct (map email store) \<and> list_all (\<lambda>e. toLowerCase e = e) (map email store))"
  by (simp add: emailIndex_def list_all_iff)

lemma meera_email: "toLowerCase (trim '' Meera@Example.COM '') = ''meera@example.com''"
  by code_simp


lemma asha_email_query: "toLowerCase (trim ''Asha@Example.COM'') = ''asha@example.com''"
  by code_simp

section \<open>Auxiliary facts: double arithmetic and the cart total\<close>

declare bitLength.simps [simp del]

lemma bitLength_pos: "0 < n \<Longrightarrow> bitLength n = bitLength (n div 2) + 1"
  by (simp add: bitLength.simps [of n])

lemma bitLength_nonpos: "n \<le> 0 \<Longrightarrow> bitLength n = 0"
  by (simp add: bitLength.simps [of n])

lemma bitLength_bounds: "0 < n \<Longrightarrow> 2 ^ (bitLength n - 1) \<le> n \<and> n < 2 ^ bitLength n"
proof (induction n rule: bitLength.induct)
  case (1 n)
  show ?case
  proof (cases "n div 2 \<le> 0")
    case True
    with 1(2) have "n = 1" by linarith
    then show ?thesis by (simp add: bitLength_pos bitLength_nonpos)
  next
    case False
    with 1 have ih: "2 ^ (bitLength (n div 2) - 1) \<le> n div 2 \<and> n div 2 < 2 ^ bitLength (n div 2)"
      by simp
    from False have pos: "0 < bitLength (n div 2)" by (simp add: bitLength_pos)
    have bl: "bitLength n = bitLength (n div 2) + 1" using 1(2) by (rule bitLength_pos)
    from pos obtain m where m: "bitLength (n div 2) = Suc m" by (cases "bitLength (n div 2)") auto
    from ih m have "2 ^ m \<le> n div 2" "n div 2 < 2 * 2 ^ m" by simp_all
    then have "2 * 2 ^ m \<le> n" "n < 2 * (2 * 2 ^ m)" by linarith+
    with bl m show ?thesis by simp
  qed
qed

lemma bitLength_eqI: "2 ^ k \<le> n \<Longrightarrow> n < 2 ^ Suc k \<Longrightarrow> bitLength n = Suc k"
proof -
  assume lo: "2 ^ k \<le> n" and hi: "n < 2 ^ Suc k"
  have "(0::int) < 2 ^ k" by simp
  with lo have pos: "0 < n" by linarith
  from bitLength_bounds [OF pos] have b: "2 ^ (bitLength n - 1) \<le> n" "n < 2 ^ bitLength n" by auto
  from lo b(2) have "(2::int) ^ k < 2 ^ bitLength n" by linarith
  then have 1: "k < bitLength n" by (rule power_less_imp_less_exp [rotated]) simp
  from hi b(1) have "(2::int) ^ (bitLength n - 1) < 2 ^ Suc k" by linarith
  then have 2: "bitLength n - 1 < Suc k" by (rule power_less_imp_less_exp [rotated]) simp
  from 1 2 show ?thesis by linarith
qed

lemma pow2_pos: "0 < pow2 q"
  by (simp add: pow2_def)

lemma roundHalfEven_of_int: "roundHalfEven (of_int m) = m"
  by (simp add: roundHalfEven_def)

lemma roundHalfEven_nonneg: "0 \<le> y \<Longrightarrow> 0 \<le> roundHalfEven y"
  by (auto simp: roundHalfEven_def Let_def)

lemma roundDouble_nonneg: "0 \<le> x \<Longrightarrow> nonNegative (roundDouble x)"
proof -
  assume x: "0 \<le> x"
  show ?thesis
  proof (cases "x = 0")
    case True
    then show ?thesis by (simp add: roundDouble_def)
  next
    case False
    with x have pos: "0 < x" by simp
    let ?q = "max (exponent x) (- 1022) - 52"
    have "0 \<le> \<bar>x\<bar> / pow2 ?q" using pow2_pos [of ?q] by simp
    then have "0 \<le> roundHalfEven (\<bar>x\<bar> / pow2 ?q)" by (rule roundHalfEven_nonneg)
    then have "0 \<le> of_int (roundHalfEven (\<bar>x\<bar> / pow2 ?q)) * pow2 ?q"
      using pow2_pos [of ?q] by simp
    with pos show ?thesis by (simp add: roundDouble_def Let_def)
  qed
qed

lemma roundDouble_whole:
  assumes k: "0 \<le> k" "k \<le> 2 ^ 53"
  shows "roundDouble (of_int k) = Finite (of_int k)"
proof (cases "k = 0")
  case True
  then show ?thesis by (simp add: roundDouble_def)
next
  case False
  with k have pos: "0 < k" by simp
  let ?x = "of_int k :: rat"
  let ?b = "bitLength k"
  from bitLength_bounds [OF pos] have b: "2 ^ (?b - 1) \<le> k" "k < 2 ^ ?b" by auto
  from pos have bpos: "0 < ?b" by (simp add: bitLength_pos)
  have ex: "exponent ?x = int ?b - 1"
    using pos by (simp add: exponent_def)
  from b(1) k have "(2::int) ^ (?b - 1) \<le> 2 ^ 53" by linarith
  then have le53: "?b - 1 \<le> 53" by (rule power_le_imp_le_exp [rotated]) simp
  let ?q = "max (exponent ?x) (- 1022) - 52"
  have q: "?q = int ?b - 53" using ex bpos by simp
  define p where "p = pow2 ?q"
  have r: "of_int (roundHalfEven (\<bar>?x\<bar> / p)) * p = ?x"
  proof (cases "?b \<le> 53")
    case True
    then have pq: "p = 1 / 2 ^ (53 - ?b)"
      unfolding p_def q by (auto simp: pow2_def nat_diff_distrib intro: arg_cong)
    have "\<bar>?x\<bar> / p = of_int (k * 2 ^ (53 - ?b))"
      using pos by (simp add: pq)
    then show ?thesis
      by (simp only: roundHalfEven_of_int) (simp add: pq)
  next
    case False
    with le53 have b54: "?b = 54" by linarith
    with b(1) have "2 ^ 53 \<le> k" by simp
    with k have keq: "k = 2 ^ 53" by simp
    have pq: "p = 2" unfolding p_def q b54 by (simp add: pow2_def)
    have "\<bar>?x\<bar> / p = of_int (2 ^ 52)" by (simp add: pq keq)
    then show ?thesis
      by (simp only: roundHalfEven_of_int) (simp add: pq keq)
  qed
  have "?x < 2 ^ 1024"
  proof -
    have "?x \<le> 2 ^ 53" using k by (metis of_int_le_iff of_int_numeral of_int_power)
    also have "\<dots> < (2::rat) ^ 1024" by (rule power_strict_increasing) simp_all
    finally show ?thesis .
  qed
  with r pos show ?thesis
    by (simp add: roundDouble_def Let_def p_def)
qed

lemma jsAdd_nonneg: "nonNegative a \<Longrightarrow> nonNegative b \<Longrightarrow> nonNegative (jsAdd a b)"
  by (cases a; cases b) (simp_all add: roundDouble_nonneg)

lemma jsMul_nonneg: "positive a \<Longrightarrow> positive b \<Longrightarrow> nonNegative (jsMul a b)"
  by (cases a; cases b) (simp_all add: roundDouble_nonneg)

lemma reduce_nonneg:
  "list_all positiveItem items \<Longrightarrow> nonNegative acc \<Longrightarrow>
     (case reduce addLine acc items of Inl e \<Rightarrow> False | Inr t \<Rightarrow> nonNegative t)"
proof (induction items arbitrary: acc)
  case Nil
  then show ?case by simp
next
  case (Cons item items)
  from Cons.prems obtain p where p: "si_product item = Some p"
    "positive (sp_cost p)" "positive (si_quantity item)"
    by (auto simp: positiveItem_def split: option.splits)
  have "nonNegative (jsAdd acc (jsMul (sp_cost p) (si_quantity item)))"
    using Cons.prems(2) p by (simp add: jsAdd_nonneg jsMul_nonneg)
  moreover have "addLine acc item = Inr (jsAdd acc (jsMul (sp_cost p) (si_quantity item)))"
    using p(1) by (simp add: addLine_def)
  ultimately show ?case
    using Cons.IH [of "jsAdd acc (jsMul (sp_cost p) (si_quantity item))"] Cons.prems(1) by simp
qed

lemma wholeNumber_cases:
  "wholeNumber a \<Longrightarrow> \<exists>k. 0 \<le> k \<and> a = Finite (of_int k)"
  by (cases a) (auto intro: exI [of _ "\<lfloor>_\<rfloor>"])

lemma exactLine_nonneg: "wholeItem item \<Longrightarrow> 0 \<le> exactLine item"
  by (auto simp: wholeItem_def exactLine_def split: option.splits dest!: wholeNumber_cases)

lemma exactTotal_nonneg: "list_all wholeItem items \<Longrightarrow> 0 \<le> exactTotal items"
  by (induction items) (simp_all add: exactTotal_def exactLine_nonneg)

lemma reduce_exact:
  "list_all wholeItem items \<Longrightarrow> 0 \<le> a \<Longrightarrow> of_int a + exactTotal items \<le> 2 ^ 53 \<Longrightarrow>
     reduce addLine (Finite (of_int a)) items = Inr (Finite (of_int a + exactTotal items))"
proof (induction items arbitrary: a)
  case Nil
  then show ?case by (simp add: exactTotal_def)
next
  case (Cons item items)
  from Cons.prems(1) have w: "wholeItem item" and ws: "list_all wholeItem items" by simp_all
  from w obtain p c q where p: "si_product item = Some p"
    and c: "0 \<le> c" "sp_cost p = Finite (of_int c)"
    and q: "0 \<le> q" "si_quantity item = Finite (of_int q)"
    by (auto simp: wholeItem_def split: option.splits dest!: wholeNumber_cases)
  have line: "exactLine item = of_int (c * q)" using p c q by (simp add: exactLine_def)
  have rest: "0 \<le> exactTotal items" using ws by (rule exactTotal_nonneg)
  have tot: "exactTotal (item # items) = of_int (c * q) + exactTotal items"
    by (simp add: exactTotal_def line)
  from Cons.prems(3) tot rest Cons.prems(2)
  have b1: "(of_int (c * q) :: rat) \<le> 2 ^ 53" and b2: "(of_int (a + c * q) :: rat) \<le> 2 ^ 53"
    by simp_all
  have cq: "0 \<le> c * q" using c q by simp
  have b1': "c * q \<le> 2 ^ 53" using b1 by (metis of_int_le_iff of_int_numeral of_int_power)
  have b2': "a + c * q \<le> 2 ^ 53" using b2 by (metis of_int_le_iff of_int_numeral of_int_power)
  have mul: "jsMul (sp_cost p) (si_quantity item) = Finite (of_int (c * q))"
    using roundDouble_whole [OF cq b1'] c q by simp
  have add: "jsAdd (Finite (of_int a)) (Finite (of_int (c * q))) = Finite (of_int (a + c * q))"
    using roundDouble_whole [of "a + c * q"] b2' cq Cons.prems(2) by simp
  have "reduce addLine (Finite (of_int (a + c * q))) items
      = Inr (Finite (of_int (a + c * q) + exactTotal items))"
    using ws cq Cons.prems(2) Cons.prems(3) tot
    by (intro Cons.IH) (simp_all add: add.assoc)
  moreover have "addLine (Finite (of_int a)) item = Inr (Finite (of_int (a + c * q)))"
    using p mul add by (simp add: addLine_def)
  ultimately show ?case using tot by (simp add: add.assoc)
qed

lemma calculateTotal_exact:
  "list_all wholeItem items \<Longrightarrow> exactTotal items \<le> 2 ^ 53 \<Longrightarrow>
     calculateTotal items = Inr (Finite (exactTotal items))"
  using reduce_exact [of items 0]
  by (cases items) (simp_all add: calculateTotal_def exactTotal_def)

lemma exactTotal_mset: "mset items = mset items' \<Longrightarrow> exactTotal items = exactTotal items'"
  unfolding exactTotal_def by (metis mset_map sum_mset_sum_list)

lemma wholeItems_mset:
  "mset items = mset items' \<Longrightarrow> list_all wholeItem items = list_all wholeItem items'"
  by (metis list_all_iff mset_eq_setD)

lemma roundDouble_eval:
  assumes "0 < x" and "exponent x = e" and "- 1022 \<le> e"
    and "roundHalfEven (x / pow2 (e - 52)) = n"
    and "of_int n * pow2 (e - 52) = r" and "r < 2 ^ 1024"
  shows "roundDouble x = Finite r"
proof -
  from assms(2,3) have q: "max (exponent x) (- 1022) - 52 = e - 52" by simp
  from assms(1) have ax: "\<bar>x\<bar> = x" by simp
  from assms(1,4,5,6) show ?thesis
    unfolding roundDouble_def q ax Let_def by simp
qed

lemma two_53_below_overflow:
  "(9007199254740992 :: rat) < 2 ^ 1024" "(9007199254740994 :: rat) < 2 ^ 1024"
proof -
  have "(2::rat) ^ 54 < 2 ^ 1024" by (rule power_strict_increasing) simp_all
  then show "(9007199254740992 :: rat) < 2 ^ 1024" "(9007199254740994 :: rat) < 2 ^ 1024"
    by simp_all
qed

lemma roundDouble_2_53_1: "roundDouble 9007199254740993 = Finite 9007199254740992"
proof (rule roundDouble_eval [where e = 53 and n = 4503599627370496])
  have "bitLength \<lfloor>\<bar>9007199254740993 :: rat\<bar>\<rfloor> = Suc 53"
    by (rule bitLength_eqI) simp_all
  then show "exponent 9007199254740993 = 53" by (simp add: exponent_def)
  have "\<lfloor>(9007199254740993 :: rat) / 2\<rfloor> = 4503599627370496"
    by (rule floor_unique) simp_all
  then show "roundHalfEven (9007199254740993 / pow2 (53 - 52)) = 4503599627370496"
    by (simp add: pow2_def roundHalfEven_def Let_def)
  show "of_int 4503599627370496 * pow2 (53 - 52) = (9007199254740992 :: rat)"
    by (simp add: pow2_def)
qed (simp_all add: two_53_below_overflow)

lemma roundDouble_2_53_2: "roundDouble 9007199254740994 = Finite 9007199254740994"
proof (rule roundDouble_eval [where e = 53 and n = 4503599627370497])
  have "bitLength \<lfloor>\<bar>9007199254740994 :: rat\<bar>\<rfloor> = Suc 53"
    by (rule bitLength_eqI) simp_all
  then show "exponent 9007199254740994 = 53" by (simp add: exponent_def)
  show "roundHalfEven (9007199254740994 / pow2 (53 - 52)) = 4503599627370497"
    by (simp add: pow2_def roundHalfEven_def Let_def)
  show "of_int 4503599627370497 * pow2 (53 - 52) = (9007199254740994 :: rat)"
    by (simp add: pow2_def)
qed (simp_all add: two_53_below_overflow)

lemma roundDouble_small:
  "roundDouble 1 = Finite 1" "roundDouble 2 = Finite 2"
  "roundDouble 9007199254740992 = Finite 9007199254740992"
  using roundDouble_whole [of 1] roundDouble_whole [of 2] roundDouble_whole [of "2 ^ 53"]
  by simp_all

section \<open>Auxiliary facts: sequences of operations and examples\<close>


lemma checkout_user:
  "user_id (fst (snd (checkout u cart))) = user_id u"
  "email (fst (snd (checkout u cart))) = email u"
  "0 \<le> walletMoney u \<Longrightarrow> 0 \<le> walletMoney (fst (snd (checkout u cart)))"
  by (simp_all add: checkout_def Let_def)




lemma step_emailIndex: "emailIndex store \<Longrightarrow> emailIndex (step isEmail store op)"
proof (cases op)
  case (Register newId b)
  assume "emailIndex store"
  then show ?thesis
    by (auto simp: Register createUser_def Let_def emailIndex_def userSchema_cast_def
        toLowerCase_idem)
next
  case (SetAddress caller userId newAddress)
  assume "emailIndex store"
  then show ?thesis by (simp add: SetAddress emailIndex_map setAddress_map)
next
  case (AddAddress caller userId bodyAddress newId)
  assume "emailIndex store"
  then show ?thesis by (simp add: AddAddress emailIndex_map addAddress_map)
next
  case (DeleteAddress caller userId addressId)
  assume "emailIndex store"
  then show ?thesis by (simp add: DeleteAddress emailIndex_map deleteAddress_map)
next
  case (Checkout userId cart)
  assume inv: "emailIndex store"
  show ?thesis
  proof (cases "getUserById store userId")
    case None
    with inv show ?thesis by (simp add: Checkout)
  next
    case (Some u)
    have "map email (save (fst (snd (checkout u cart))) store) = map email store"
      by (rule map_save [of store _ u])
        (simp_all add: checkout_user Some getUserById_id [OF Some])
    with inv Some show ?thesis by (simp add: Checkout emailIndex_map)
  qed
qed

lemma run_emailIndex: "emailIndex store \<Longrightarrow> emailIndex (run isEmail store ops)"
  unfolding run_def by (induction ops arbitrary: store) (simp_all add: step_emailIndex)

lemma cast_meera: "userSchema_cast ''u3'' meera = meeraDoc"
  by (simp add: userSchema_cast_def meera_def meeraDoc_def meera_email default_address_def)
    (simp add: trim_def isWhiteSpace_def)

lemma valid_meera: "userSchema_valid containsAt meeraDoc"
  by (simp add: userSchema_valid_def meeraDoc_def containsAt_def isDigit_def isLetter_def)

lemma meera_email_capitals: "toLowerCase (trim ''MEERA@example.com'') = ''meera@example.com''"
  by code_simp

lemma cast_meera_capitals:
  "userSchema_cast ''u4'' (meera\<lparr>new_email := ''MEERA@example.com''\<rparr>) = meeraDoc\<lparr>user_id := ''u4''\<rparr>"
  by (simp add: userSchema_cast_def meera_def meeraDoc_def meera_email_capitals default_address_def)
    (simp add: trim_def isWhiteSpace_def)

lemma valid_meera_capitals: "userSchema_valid containsAt (meeraDoc\<lparr>user_id := ''u4''\<rparr>)"
  by (simp add: userSchema_valid_def meeraDoc_def containsAt_def isDigit_def isLetter_def)


lemma run_register_twice:
  "run containsAt [asha, ravi]
     [Register ''u3'' meera, Register ''u4'' (meera\<lparr>new_email := ''MEERA@example.com''\<rparr>)]
   = [asha, ravi, meeraDoc]"
  by (simp add: run_def createUser_def cast_meera valid_meera cast_meera_capitals
      valid_meera_capitals Let_def)
    (simp add: meeraDoc_def asha_def ravi_def)

section \<open>The cart total\<close>

text \<open>
  C3 (amended). \<open>calculateTotal\<close> returns 0 for an empty cart. When every item has a
  product with a positive cost and a positive quantity it returns a number that is not
  negative. When every item has a product and costs and quantities are whole numbers whose
  exact total \<open>\<Sum> product.cost \<times> item.quantity\<close> is at most \<open>2 ^ 53\<close>, it returns exactly
  this total, and returns the same for every permutation of the items.
\<close>

theorem calculateTotal_exact_regime:
  "calculateTotal [] = Inr (Finite 0)
   \<and> (list_all positiveItem items \<longrightarrow>
        (case calculateTotal items of Inl e \<Rightarrow> False | Inr t \<Rightarrow> nonNegative t))
   \<and> (list_all wholeItem items \<and> exactTotal items \<le> 2 ^ 53 \<longrightarrow>
        calculateTotal items = Inr (Finite (\<Sum>item\<leftarrow>items. exactLine item)))
   \<and> (list_all wholeItem items \<and> exactTotal items \<le> 2 ^ 53 \<and> mset items = mset items' \<longrightarrow>
        calculateTotal items' = calculateTotal items)"
proof -
  have empty: "calculateTotal [] = Inr (Finite 0)" by (simp add: calculateTotal_def)
  have nonneg: "list_all positiveItem items \<longrightarrow>
        (case calculateTotal items of Inl e \<Rightarrow> False | Inr t \<Rightarrow> nonNegative t)"
    using reduce_nonneg [of items "Finite 0"] by (simp add: calculateTotal_def)
  have exact: "list_all wholeItem items \<and> exactTotal items \<le> 2 ^ 53 \<longrightarrow>
        calculateTotal items = Inr (Finite (\<Sum>item\<leftarrow>items. exactLine item))"
    using calculateTotal_exact [of items] by (simp add: exactTotal_def)
  have perm: "list_all wholeItem items \<and> exactTotal items \<le> 2 ^ 53 \<and> mset items = mset items' \<longrightarrow>
        calculateTotal items' = calculateTotal items"
  proof
    assume h: "list_all wholeItem items \<and> exactTotal items \<le> 2 ^ 53 \<and> mset items = mset items'"
    then have "list_all wholeItem items'" "exactTotal items' \<le> 2 ^ 53" "exactTotal items' = exactTotal items"
      using wholeItems_mset [of items items'] exactTotal_mset [of items items'] by auto
    with h show "calculateTotal items' = calculateTotal items"
      by (simp add: calculateTotal_exact)
  qed
  from empty nonneg exact perm show ?thesis by blast
qed

theorem calculateTotal_exact_regime_witness:
  "list_all positiveItem [pricedItem 50 2, pricedItem 80 3]
   \<and> list_all wholeItem [pricedItem 50 2, pricedItem 80 3]
   \<and> exactTotal [pricedItem 50 2, pricedItem 80 3] \<le> 2 ^ 53
   \<and> mset [pricedItem 50 2, pricedItem 80 3] = mset [pricedItem 80 3, pricedItem 50 2]
   \<and> calculateTotal [pricedItem 50 2, pricedItem 80 3] = Inr (Finite 340)
   \<and> calculateTotal [pricedItem 80 3, pricedItem 50 2] = Inr (Finite 340)"
proof -
  have p: "list_all positiveItem [pricedItem 50 2, pricedItem 80 3]"
    by (simp add: positiveItem_def pricedItem_def)
  have w: "list_all wholeItem [pricedItem 50 2, pricedItem 80 3]"
    by (simp add: wholeItem_def pricedItem_def)
  have t: "exactTotal [pricedItem 50 2, pricedItem 80 3] = 340"
    by (simp add: exactTotal_def exactLine_def pricedItem_def)
  have m: "mset [pricedItem 50 2, pricedItem 80 3] = mset [pricedItem 80 3, pricedItem 50 2]"
    by (simp add: add.commute)
  from calculateTotal_exact_regime
    [of "[pricedItem 50 2, pricedItem 80 3]" "[pricedItem 80 3, pricedItem 50 2]"] p w t m
  show ?thesis by (simp add: exactTotal_def)
qed

text \<open>
  Beyond that the doubles round and an item may lack its product: with costs \<open>2 ^ 53\<close>, 1
  and 1 the total is \<open>2 ^ 53\<close> in one order and \<open>2 ^ 53 + 2\<close> in another, and neither order
  need give the exact sum; an item whose product is \<open>undefined\<close> makes the call throw.
\<close>

theorem calculateTotal_rounding_counterexample:
  "mset [pricedItem (2 ^ 53) 1, pricedItem 1 1, pricedItem 1 1]
     = mset [pricedItem 1 1, pricedItem 1 1, pricedItem (2 ^ 53) 1]
   \<and> exactTotal [pricedItem (2 ^ 53) 1, pricedItem 1 1, pricedItem 1 1] = 2 ^ 53 + 2
   \<and> calculateTotal [pricedItem (2 ^ 53) 1, pricedItem 1 1, pricedItem 1 1] = Inr (Finite (2 ^ 53))
   \<and> calculateTotal [pricedItem 1 1, pricedItem 1 1, pricedItem (2 ^ 53) 1] = Inr (Finite (2 ^ 53 + 2))
   \<and> calculateTotal [pricedItem 1 1, orphanItem] = Inl TypeError"
  by (simp add: calculateTotal_def addLine_def pricedItem_def orphanItem_def exactTotal_def
      exactLine_def roundDouble_small roundDouble_2_53_1 roundDouble_2_53_2)

section \<open>Checkout: all or nothing\<close>

text \<open>
  C1. Checkout is all-or-nothing. When the three preconditions hold (cart not empty, a
  saved address, total within the wallet) checkout returns the post-commit balance
  \<open>walletMoney - computeTotal cart\<close>, the persisted user has exactly this balance and is
  otherwise unchanged, and the persisted cart is empty. When a precondition fails the
  outcome is the rejection of the first failing precondition (\<open>EmptyCart\<close>, \<open>NoAddress\<close>,
  \<open>InsufficientBalance\<close>) and both the user record and the cart are exactly as before.
\<close>

theorem checkout_all_or_nothing:
  "(cart \<noteq> [] \<and> truthy (hasSetNonDefaultAddress u) \<and> computeTotal cart \<le> walletMoney u \<longrightarrow>
      checkout u cart =
        (Inr (walletMoney u - computeTotal cart),
         u\<lparr>walletMoney := walletMoney u - computeTotal cart\<rparr>, []))
   \<and> (\<not> (cart \<noteq> [] \<and> truthy (hasSetNonDefaultAddress u) \<and> computeTotal cart \<le> walletMoney u) \<longrightarrow>
      checkout u cart =
        (Inl (if cart = [] then EmptyCart
              else if \<not> truthy (hasSetNonDefaultAddress u) then NoAddress
              else InsufficientBalance), u, cart))"
  by (simp add: checkout_def Let_def)

theorem checkout_all_or_nothing_witness:
  "[shoes, lamps] \<noteq> [] \<and> truthy (hasSetNonDefaultAddress asha)
   \<and> computeTotal [shoes, lamps] \<le> walletMoney asha
   \<and> checkout asha [shoes, lamps] = (Inr 160, asha\<lparr>walletMoney := 160\<rparr>, [])
   \<and> \<not> (computeTotal [shoes, lamps] \<le> walletMoney ravi)
   \<and> checkout (ravi\<lparr>addresses := Some [home]\<rparr>) [shoes, lamps]
       = (Inl InsufficientBalance, ravi\<lparr>addresses := Some [home]\<rparr>, [shoes, lamps])"
  using checkout_all_or_nothing [of "[shoes, lamps]" asha]
    checkout_all_or_nothing [of "[shoes, lamps]" "ravi\<lparr>addresses := Some [home]\<rparr>"]
  by (simp add: computeTotal_def hasSetNonDefaultAddress_def shoes_def lamps_def asha_def ravi_def)

section \<open>The address precondition of checkout\<close>

text \<open>
  C2. The precondition "has a non-default address" holds exactly when the saved-address
  collection is present and not empty; the legacy \<open>address\<close> field has no influence on it,
  whatever it holds. For every user whose saved-address collection is absent or empty, a
  checkout that comes to this precondition, the cart not being empty, is rejected with
  \<open>NoAddress\<close>.
\<close>

theorem hasSetNonDefaultAddress_saved_addresses_only:
  "truthy (hasSetNonDefaultAddress u) = (case addresses u of None \<Rightarrow> False | Some as \<Rightarrow> as \<noteq> [])
   \<and> hasSetNonDefaultAddress (u\<lparr>address := a\<rparr>) = hasSetNonDefaultAddress u
   \<and> ((addresses u = None \<or> addresses u = Some []) \<and> cart \<noteq> [] \<longrightarrow>
        checkout u cart = (Inl NoAddress, u, cart))"
  by (auto simp: checkout_def hasSetNonDefaultAddress_def split: option.splits)

theorem hasSetNonDefaultAddress_saved_addresses_only_witness:
  "addresses ravi = Some [] \<and> [shoes] \<noteq> []
   \<and> checkout ravi [shoes] = (Inl NoAddress, ravi, [shoes])
   \<and> \<not> truthy (hasSetNonDefaultAddress (ravi\<lparr>address := ''12 Park Street, Kolkata 700016''\<rparr>))
   \<and> truthy (hasSetNonDefaultAddress asha)"
  using hasSetNonDefaultAddress_saved_addresses_only [of ravi "''12 Park Street, Kolkata 700016''" "[shoes]"]
    hasSetNonDefaultAddress_saved_addresses_only [of asha "''x''" "[]"]
  by (simp add: ravi_def asha_def)

section \<open>Store faults in \<open>isEmailTaken\<close>\<close>

text \<open>
  C7. A store fault must not be reported as an ordinary result. \<open>isEmailTaken\<close> does
  report one so: when the query of the store fails, it answers \<open>false\<close>, "not taken", the
  same answer as for an email that no user has, even for an email that the store, when it
  answers, reports as taken.
\<close>

theorem isEmailTaken_store_fault_reported_not_taken:
  "isEmailTaken (\<lambda>e. StoreFault ''connection lost'') ''asha@example.com'' = False
   \<and> isEmailTaken (\<lambda>e. Answer (findOne_email [asha] e)) ''asha@example.com'' = True"
  by (simp add: isEmailTaken_def findOne_email_def asha_def trim_def isWhiteSpace_def
      toLowerCase_def toLower_def)

section \<open>Listing addresses\<close>

text \<open>
  C10. For an existing user whose identity is that of the caller, \<open>getAddresses\<close>
  succeeds and sends a list: the saved addresses, and the empty list when the collection is
  absent or empty.
\<close>

theorem getAddresses_returns_list:
  "getUserById store userId = Some u \<Longrightarrow> user_id u = user_id caller \<Longrightarrow>
     getAddresses store caller userId
       = Inr (SendAddresses (case addresses u of None \<Rightarrow> [] | Some as \<Rightarrow> as))
     \<and> ((addresses u = None \<or> addresses u = Some []) \<longrightarrow>
          getAddresses store caller userId = Inr (SendAddresses []))"
  by (auto simp: getAddresses_def)

theorem getAddresses_returns_list_witness:
  "getUserById [asha, ravi\<lparr>addresses := None\<rparr>] ''u2'' = Some (ravi\<lparr>addresses := None\<rparr>)
   \<and> user_id (ravi\<lparr>addresses := None\<rparr>) = user_id ravi
   \<and> addresses (ravi\<lparr>addresses := None\<rparr>) = None
   \<and> getAddresses [asha, ravi\<lparr>addresses := None\<rparr>] ravi ''u2'' = Inr (SendAddresses [])"
proof -
  have h: "getUserById [asha, ravi\<lparr>addresses := None\<rparr>] ''u2'' = Some (ravi\<lparr>addresses := None\<rparr>)"
    by (simp add: getUserById_def asha_def ravi_def)
  have i: "user_id (ravi\<lparr>addresses := None\<rparr>) = user_id ravi" by simp
  from getAddresses_returns_list [OF h i] h i show ?thesis by simp
qed

section \<open>Adding an address\<close>

text \<open>
  What the guard of \<open>addAddress\<close> does for the owning, existing user: a text whose trimmed
  length is at least 20 is appended, trimmed; a text whose length as sent is below 20, and
  an absent text, are refused with status 400 and the collection is unchanged.
\<close>

lemma addAddress_guard:
  assumes found: "getUserById store userId = Some u"
    and owner: "user_id u = user_id caller"
  shows "(20 \<le> length (trim a) \<longrightarrow>
          fst (addAddress store caller userId (StringValue a) newId) = Inr SendSuccess
          \<and> getUserById (snd (addAddress store caller userId (StringValue a) newId)) userId
              = Some (u\<lparr>addresses := Some ((case addresses u of None \<Rightarrow> [] | Some as \<Rightarrow> as)
                                             @ [\<lparr>addr_id = newId, addr_address = trim a\<rparr>])\<rparr>))
     \<and> (length a < 20 \<longrightarrow>
          addAddress store caller userId (StringValue a) newId
            = (Inl (ApiError BAD_REQUEST ''Address should be greater than 20 characters''), store))
     \<and> addAddress store caller userId Absent newId
          = (Inl (ApiError BAD_REQUEST ''Address should be greater than 20 characters''), store)"
proof -
  have uid: "user_id u = userId" using found by (rule getUserById_id)
  have accept: "20 \<le> length (trim a) \<longrightarrow>
          fst (addAddress store caller userId (StringValue a) newId) = Inr SendSuccess
          \<and> getUserById (snd (addAddress store caller userId (StringValue a) newId)) userId
              = Some (u\<lparr>addresses := Some ((case addresses u of None \<Rightarrow> [] | Some as \<Rightarrow> as)
                                             @ [\<lparr>addr_id = newId, addr_address = trim a\<rparr>])\<rparr>)"
  proof
    assume t: "20 \<le> length (trim a)"
    with length_trim [of a] have a: "20 \<le> length a" "trim a \<noteq> []" "a \<noteq> []" by auto
    let ?u' = "u\<lparr>addresses := Some ((case addresses u of None \<Rightarrow> [] | Some as \<Rightarrow> as)
                                             @ [\<lparr>addr_id = newId, addr_address = trim a\<rparr>])\<rparr>"
    from a found owner
    have eq: "addAddress store caller userId (StringValue a) newId = (Inr SendSuccess, save ?u' store)"
      by (simp add: addAddress_def Let_def)
    have "getUserById (save ?u' store) userId = Some ?u'"
      using found by (rule getUserById_save_same) (simp add: uid)
    with eq show "fst (addAddress store caller userId (StringValue a) newId) = Inr SendSuccess
          \<and> getUserById (snd (addAddress store caller userId (StringValue a) newId)) userId = Some ?u'"
      by simp
  qed
  have reject: "length a < 20 \<longrightarrow>
          addAddress store caller userId (StringValue a) newId
            = (Inl (ApiError BAD_REQUEST ''Address should be greater than 20 characters''), store)"
    using found owner by (simp add: addAddress_def)
  have absent: "addAddress store caller userId Absent newId
          = (Inl (ApiError BAD_REQUEST ''Address should be greater than 20 characters''), store)"
    using found owner by (simp add: addAddress_def)
  from accept reject absent show ?thesis by blast
qed

text \<open>
  C4. A text whose trimmed length is below 20 must be refused with the collection
  unchanged. \<open>addAddress\<close> tests the length of the text as it was sent and the schema
  trims what is stored, so such a text passes when white space brings it to 20 characters:
  19 characters and a space are accepted and stored with length 19, one letter and 19
  spaces are stored as one letter, while the same 19 characters alone are refused.
\<close>

theorem addAddress_stores_address_below_minimum:
  "getUserById [asha, ravi] ''u2'' = Some ravi
   \<and> length (trim ''1234567890123456789 '') = 19
   \<and> addAddress [asha, ravi] ravi ''u2'' (StringValue ''1234567890123456789 '') ''a9''
      = (Inr SendSuccess,
         [asha, ravi\<lparr>addresses := Some [\<lparr>addr_id = ''a9'', addr_address = ''1234567890123456789''\<rparr>]\<rparr>])
   \<and> addAddress [asha, ravi] ravi ''u2'' (StringValue ''a                   '') ''a9''
      = (Inr SendSuccess,
         [asha, ravi\<lparr>addresses := Some [\<lparr>addr_id = ''a9'', addr_address = ''a''\<rparr>]\<rparr>])
   \<and> addAddress [asha, ravi] ravi ''u2'' (StringValue ''1234567890123456789'') ''a9''
      = (Inl (ApiError BAD_REQUEST ''Address should be greater than 20 characters''), [asha, ravi])"
  by (simp add: addAddress_def getUserById_def asha_def ravi_def trim_def isWhiteSpace_def Let_def)

section \<open>Ownership checks\<close>

text \<open>
  The fields that the ownership checks read: \<open>getUser\<close> and \<open>setAddress\<close> compare the
  emails of the target record and of the caller, \<open>getAddresses\<close>, \<open>addAddress\<close> and
  \<open>deleteAddress\<close> compare their ids.
\<close>

lemma ownership_checks_compared_fields:
  assumes found: "getUserById store userId = Some u"
  shows "(isForbidden (getUser store caller userId q) \<longleftrightarrow> email u \<noteq> email caller)
     \<and> (isForbidden (fst (setAddress store caller userId newAddress)) \<longleftrightarrow> email u \<noteq> email caller)
     \<and> (isForbidden (getAddresses store caller userId) \<longleftrightarrow> user_id u \<noteq> user_id caller)
     \<and> (isForbidden (fst (addAddress store caller userId bodyAddress newId))
           \<longleftrightarrow> user_id u \<noteq> user_id caller)
     \<and> (isForbidden (fst (deleteAddress store caller userId addressId))
           \<longleftrightarrow> user_id u \<noteq> user_id caller)"
proof -
  have g: "isForbidden (getUser store caller userId q) \<longleftrightarrow> email u \<noteq> email caller"
    using found
    by (simp add: getUser_def getUserAddressById_def getUserById_def isForbidden_def Let_def)
  have s: "isForbidden (fst (setAddress store caller userId newAddress)) \<longleftrightarrow> email u \<noteq> email caller"
    using found
    by (simp add: setAddress_def service_setAddress_def isForbidden_def Let_def)
  have l: "isForbidden (getAddresses store caller userId) \<longleftrightarrow> user_id u \<noteq> user_id caller"
    using found by (simp add: getAddresses_def isForbidden_def)
  have a: "isForbidden (fst (addAddress store caller userId bodyAddress newId))
           \<longleftrightarrow> user_id u \<noteq> user_id caller"
    using found by (simp add: addAddress_def isForbidden_def Let_def split: option.splits)
  have d: "isForbidden (fst (deleteAddress store caller userId addressId))
           \<longleftrightarrow> user_id u \<noteq> user_id caller"
    using found by (simp add: deleteAddress_def isForbidden_def Let_def)
  from g s l a d show ?thesis by blast
qed

text \<open>
  C5. The caller is the record of the authenticated user, a record of the collection, in
  which ids and emails are unique. For every operation of the identity read path and of the
  address manager on an existing user record, the operation fails with \<open>Forbidden\<close>
  exactly when the caller's email differs from the email of the target record.
\<close>

theorem ownership_checks_forbidden_iff_emails_differ:
  assumes found: "getUserById store userId = Some u"
    and caller: "caller \<in> set store"
    and ids: "distinct (map user_id store)"
    and emails: "distinct (map email store)"
  shows "(isForbidden (getUser store caller userId q) \<longleftrightarrow> email u \<noteq> email caller)
     \<and> (isForbidden (fst (setAddress store caller userId newAddress)) \<longleftrightarrow> email u \<noteq> email caller)
     \<and> (isForbidden (getAddresses store caller userId) \<longleftrightarrow> email u \<noteq> email caller)
     \<and> (isForbidden (fst (addAddress store caller userId bodyAddress newId))
           \<longleftrightarrow> email u \<noteq> email caller)
     \<and> (isForbidden (fst (deleteAddress store caller userId addressId))
           \<longleftrightarrow> email u \<noteq> email caller)"
proof -
  have m: "u \<in> set store" using found by (rule getUserById_mem)
  from m caller ids emails
  have same: "user_id u \<noteq> user_id caller \<longleftrightarrow> email u \<noteq> email caller"
    using find_distinct_key [of user_id store u caller] find_distinct_key [of email store u caller]
    by blast
  from ownership_checks_compared_fields [OF found, of caller q newAddress bodyAddress newId addressId]
  show ?thesis unfolding same by blast
qed

theorem ownership_checks_forbidden_iff_emails_differ_witness:
  "getUserById [asha, ravi] ''u1'' = Some asha
   \<and> ravi \<in> set [asha, ravi] \<and> asha \<in> set [asha, ravi]
   \<and> distinct (map user_id [asha, ravi]) \<and> distinct (map email [asha, ravi])
   \<and> email asha \<noteq> email ravi
   \<and> isForbidden (getUser [asha, ravi] ravi ''u1'' None)
   \<and> isForbidden (getAddresses [asha, ravi] ravi ''u1'')
   \<and> isForbidden (fst (deleteAddress [asha, ravi] ravi ''u1'' ''a1''))
   \<and> \<not> isForbidden (getUser [asha, ravi] asha ''u1'' None)
   \<and> \<not> isForbidden (getAddresses [asha, ravi] asha ''u1'')
   \<and> \<not> isForbidden (fst (addAddress [asha, ravi] asha ''u1'' Absent ''a9''))"
proof -
  have h: "getUserById [asha, ravi] ''u1'' = Some asha"
    by (simp add: getUserById_def asha_def ravi_def)
  have c: "ravi \<in> set [asha, ravi]" "asha \<in> set [asha, ravi]" by simp_all
  have i: "distinct (map user_id [asha, ravi])" by (simp add: asha_def ravi_def)
  have j: "distinct (map email [asha, ravi])" by (simp add: asha_def ravi_def)
  have e: "email asha \<noteq> email ravi" by (simp add: asha_def ravi_def)
  from ownership_checks_forbidden_iff_emails_differ
      [OF h c(1) i j, of None "''x''" Absent "''a9''" "''a1''"]
    ownership_checks_forbidden_iff_emails_differ
      [OF h c(2) i j, of None "''x''" Absent "''a9''" "''a1''"] h c i j e
  show ?thesis by simp
qed

section \<open>Deleting an address\<close>

text \<open>
  C6. \<open>deleteAddress\<close> removes an address by its identifier. For an existing user who is
  the caller, whose saved addresses have distinct identifiers: if no address has the given
  identifier the call fails with \<open>NotFound\<close> and the collection is unchanged; if one has,
  the call succeeds and the user's addresses are the former ones without that address,
  one fewer and in the same order; and the same call made again fails with \<open>NotFound\<close>
  and changes nothing.
\<close>

theorem deleteAddress_by_identifier:
  assumes found: "getUserById store userId = Some u"
    and owner: "user_id u = user_id caller"
    and as: "as = (case addresses u of None \<Rightarrow> [] | Some as \<Rightarrow> as)"
    and ids: "distinct (map addr_id as)"
  shows "(addressId \<notin> set (map addr_id as) \<longrightarrow>
          deleteAddress store caller userId addressId
            = (Inl (ApiError NOT_FOUND ''Address to delete was not found''), store))
     \<and> (addressId \<in> set (map addr_id as) \<longrightarrow>
          fst (deleteAddress store caller userId addressId) = Inr SendSuccess
          \<and> getUserById (snd (deleteAddress store caller userId addressId)) userId
              = Some (u\<lparr>addresses := Some (filter (\<lambda>addr. addr_id addr \<noteq> addressId) as)\<rparr>)
          \<and> length (filter (\<lambda>addr. addr_id addr \<noteq> addressId) as) + 1 = length as
          \<and> deleteAddress (snd (deleteAddress store caller userId addressId)) caller userId addressId
              = (Inl (ApiError NOT_FOUND ''Address to delete was not found''),
                 snd (deleteAddress store caller userId addressId)))"
proof -
  let ?P = "\<lambda>addr. addr_id addr = addressId"
  let ?nf = "Inl (ApiError NOT_FOUND ''Address to delete was not found'') :: error + response"
  have uid: "user_id u = userId" using found by (rule getUserById_id)
  have absent: "addressId \<notin> set (map addr_id as) \<longrightarrow>
      deleteAddress store caller userId addressId = (?nf, store)"
  proof
    assume "addressId \<notin> set (map addr_id as)"
    then have "findIndex ?P as = - 1" by (auto simp: findIndex_none)
    with found owner as show "deleteAddress store caller userId addressId = (?nf, store)"
      by (simp add: deleteAddress_def Let_def)
  qed
  have present: "addressId \<in> set (map addr_id as) \<longrightarrow>
          fst (deleteAddress store caller userId addressId) = Inr SendSuccess
          \<and> getUserById (snd (deleteAddress store caller userId addressId)) userId
              = Some (u\<lparr>addresses := Some (filter (\<lambda>addr. addr_id addr \<noteq> addressId) as)\<rparr>)
          \<and> length (filter (\<lambda>addr. addr_id addr \<noteq> addressId) as) + 1 = length as
          \<and> deleteAddress (snd (deleteAddress store caller userId addressId)) caller userId addressId
              = (?nf, snd (deleteAddress store caller userId addressId))"
  proof
    assume mem: "addressId \<in> set (map addr_id as)"
    let ?rest = "filter (\<lambda>addr. addr_id addr \<noteq> addressId) as"
    let ?u' = "u\<lparr>addresses := Some ?rest\<rparr>"
    from mem have ne: "findIndex ?P as \<noteq> - 1" by (auto simp: findIndex_none)
    have sp: "splice1 (findIndex ?P as) as = ?rest"
      using ids ne by (rule splice1_findIndex_filter)
    from found owner as ne sp
    have eq: "deleteAddress store caller userId addressId = (Inr SendSuccess, save ?u' store)"
      by (simp add: deleteAddress_def Let_def)
    have look: "getUserById (save ?u' store) userId = Some ?u'"
      using found by (rule getUserById_save_same) (simp add: uid)
    have gone: "findIndex ?P ?rest = - 1" by (simp add: findIndex_none)
    from look owner gone
    have again: "deleteAddress (save ?u' store) caller userId addressId = (?nf, save ?u' store)"
      by (simp add: deleteAddress_def Let_def)
    have "length ?rest + 1 = length as"
    proof -
      from ids have "length (filter ?P as) \<le> 1"
        by (induction as) (auto simp: filter_empty_conv image_iff)
      moreover from mem have "filter ?P as \<noteq> []" by (auto simp: filter_empty_conv)
      ultimately have "length (filter ?P as) = 1" by (cases "filter ?P as") auto
      with sum_length_filter_compl [of ?P as] show ?thesis by simp
    qed
    with eq look again
    show "fst (deleteAddress store caller userId addressId) = Inr SendSuccess
          \<and> getUserById (snd (deleteAddress store caller userId addressId)) userId = Some ?u'
          \<and> length ?rest + 1 = length as
          \<and> deleteAddress (snd (deleteAddress store caller userId addressId)) caller userId addressId
              = (?nf, snd (deleteAddress store caller userId addressId))"
      by simp
  qed
  from absent present show ?thesis by blast
qed

theorem deleteAddress_by_identifier_witness:
  "getUserById [asha, ravi] ''u1'' = Some asha \<and> user_id asha = user_id asha
   \<and> [home, office] = (case addresses asha of None \<Rightarrow> [] | Some as \<Rightarrow> as)
   \<and> distinct (map addr_id [home, office])
   \<and> ''a1'' \<in> set (map addr_id [home, office])
   \<and> ''a7'' \<notin> set (map addr_id [home, office])
   \<and> deleteAddress [asha, ravi] asha ''u1'' ''a1''
       = (Inr SendSuccess, [asha\<lparr>addresses := Some [office]\<rparr>, ravi])
   \<and> deleteAddress [asha\<lparr>addresses := Some [office]\<rparr>, ravi] asha ''u1'' ''a1''
       = (Inl (ApiError NOT_FOUND ''Address to delete was not found''),
          [asha\<lparr>addresses := Some [office]\<rparr>, ravi])
   \<and> deleteAddress [asha, ravi] asha ''u1'' ''a7''
       = (Inl (ApiError NOT_FOUND ''Address to delete was not found''), [asha, ravi])"
proof -
  have h: "getUserById [asha, ravi] ''u1'' = Some asha"
    by (simp add: getUserById_def asha_def ravi_def)
  have a: "[home, office] = (case addresses asha of None \<Rightarrow> [] | Some as \<Rightarrow> as)"
    by (simp add: asha_def)
  have d: "distinct (map addr_id [home, office])"
    by (simp add: home_def office_def)
  have m: "''a1'' \<in> set (map addr_id [home, office])" "''a7'' \<notin> set (map addr_id [home, office])"
    by (simp_all add: home_def office_def)
  have first: "deleteAddress [asha, ravi] asha ''u1'' ''a1''
       = (Inr SendSuccess, [asha\<lparr>addresses := Some [office]\<rparr>, ravi])"
    by (simp add: deleteAddress_def getUserById_def asha_def ravi_def home_def office_def
        splice1_def Let_def)
  from deleteAddress_by_identifier [OF h refl a d, of "''a1''"]
    deleteAddress_by_identifier [OF h refl a d, of "''a7''"] h a d m first
  show ?thesis by simp
qed

section \<open>The wallet\<close>



section \<open>Uniqueness of emails\<close>

text \<open>
  C9. Emails are unique without regard to case. In a collection under the unique index
  on the stored, lower-cased emails, no two records have emails that are equal up to case;
  for an email without white space around it, \<open>isEmailTaken\<close>, when the store answers, is
  true exactly when some user's email equals it up to case; and every sequence of
  operations maintains the index.
\<close>

theorem email_unique_case_insensitive:
  assumes inv: "emailIndex store"
  shows "distinct (map (\<lambda>u. toLowerCase (email u)) store)
     \<and> (trim e = e \<longrightarrow>
          (isEmailTaken (\<lambda>e. Answer (findOne_email store e)) e
             \<longleftrightarrow> (\<exists>u\<in>set store. toLowerCase (email u) = toLowerCase e)))
     \<and> emailIndex (run isEmail store ops)"
proof -
  from inv have low: "\<And>u. u \<in> set store \<Longrightarrow> toLowerCase (email u) = email u"
    by (simp add: emailIndex_def list_all_iff)
  then have eq: "map (\<lambda>u. toLowerCase (email u)) store = map email store" by simp
  have uniq: "distinct (map (\<lambda>u. toLowerCase (email u)) store)"
    unfolding eq using inv by (simp add: emailIndex_def)
  have taken: "trim e = e \<longrightarrow>
          (isEmailTaken (\<lambda>e. Answer (findOne_email store e)) e
             \<longleftrightarrow> (\<exists>u\<in>set store. toLowerCase (email u) = toLowerCase e))"
  proof
    assume t: "trim e = e"
    have "isEmailTaken (\<lambda>e. Answer (findOne_email store e)) e
          \<longleftrightarrow> (\<exists>u\<in>set store. email u = toLowerCase e)"
      by (auto simp: isEmailTaken_def findOne_email_def t find_None_iff find_Some_iff
          split: option.splits)
    also have "\<dots> \<longleftrightarrow> (\<exists>u\<in>set store. toLowerCase (email u) = toLowerCase e)"
      using low by auto
    finally show "isEmailTaken (\<lambda>e. Answer (findOne_email store e)) e
          \<longleftrightarrow> (\<exists>u\<in>set store. toLowerCase (email u) = toLowerCase e)" .
  qed
  have maintained: "emailIndex (run isEmail store ops)"
    using inv by (rule run_emailIndex)
  from uniq taken maintained show ?thesis by blast
qed

theorem email_unique_case_insensitive_witness:
  "emailIndex [asha, ravi]
   \<and> trim ''Asha@Example.COM'' = ''Asha@Example.COM''
   \<and> isEmailTaken (\<lambda>e. Answer (findOne_email [asha, ravi] e)) ''Asha@Example.COM''
   \<and> \<not> isEmailTaken (\<lambda>e. Answer (findOne_email [asha, ravi] e)) ''meera@example.com''
   \<and> run containsAt [asha, ravi]
        [Register ''u3'' meera, Register ''u4'' (meera\<lparr>new_email := ''MEERA@example.com''\<rparr>)]
      = [asha, ravi, meeraDoc]
   \<and> emailIndex [asha, ravi, meeraDoc]"
proof -
  have i: "emailIndex [asha, ravi]"
    by (simp add: emailIndex_def asha_def ravi_def toLowerCase_def toLower_def)
  have t: "trim ''Asha@Example.COM'' = ''Asha@Example.COM''"
    "trim ''meera@example.com'' = ''meera@example.com''"
    by (simp_all add: trim_def isWhiteSpace_def)
  have q: "toLowerCase ''Asha@Example.COM'' = ''asha@example.com''"
    using asha_email_query by (simp add: t)
  have r: "toLowerCase ''meera@example.com'' = ''meera@example.com''"
    by (simp add: toLowerCase_def toLower_def)
  have e: "toLowerCase (email asha) = ''asha@example.com''"
    "toLowerCase (email ravi) = ''ravi@example.com''"
    by (simp_all add: asha_def ravi_def toLowerCase_def toLower_def)
  from email_unique_case_insensitive [OF i, of "''Asha@Example.COM''" containsAt
      "[Register ''u3'' meera, Register ''u4'' (meera\<lparr>new_email := ''MEERA@example.com''\<rparr>)]"]
    email_unique_case_insensitive [OF i, of "''meera@example.com''" containsAt "[]"]
    i t q r e run_register_twice
  show ?thesis by simp
qed

end
